theory Spec2Isabelle
  imports Main "HOL-Library.Sublist"
begin

section \<open>Python values, exceptions and string primitives\<close>

text \<open>
  Exceptions are values. Each constructor carries the text that \<open>str(e)\<close> gives.
  \<open>HttpError\<close> is the error class of the calendar client that the calendar service
  catches; \<open>OtherException\<close> stands for every other exception class.
\<close>

datatype py_exn =
    ValueError string
  | ZeroDivisionError string
  | OverflowError string
  | HttpError string
  | OtherException string

fun str_exn :: "py_exn \<Rightarrow> string" where
  "str_exn (ValueError m) = m"
| "str_exn (ZeroDivisionError m) = m"
| "str_exn (OverflowError m) = m"
| "str_exn (HttpError m) = m"
| "str_exn (OtherException m) = m"

fun is_HttpError :: "py_exn \<Rightarrow> bool" where
  "is_HttpError (HttpError m) = True"
| "is_HttpError e = False"

text \<open>
  The values of the \<open>booking_rules\<close> dictionary (\<open>Dict[str, Any]\<close>, loaded from JSON):
  integers and booleans. \<open>py_truthy\<close> is the truth value in an \<open>if\<close>, \<open>py_num\<close> the
  value in arithmetic and comparisons (\<open>True\<close> is 1), \<open>py_str\<close> the text of an f-string.
\<close>

datatype py_value = PyInt int | PyBool bool

text \<open>
  Decimal digits by their character codes: \<open>chr(ord("0") + n)\<close> for a digit \<open>n\<close>,
  and back.
\<close>

definition digit_char :: "nat \<Rightarrow> char" where
  "digit_char n = char_of (48 + n)"

definition digit_of :: "char \<Rightarrow> nat option" where
  "digit_of c =
     (let k = (of_char c :: nat) in if 48 \<le> k \<and> k \<le> 57 then Some (k - 48) else None)"

fun str_nat :: "nat \<Rightarrow> string" where
  "str_nat n = (if n < 10 then [digit_char n] else str_nat (n div 10) @ [digit_char (n mod 10)])"

declare str_nat.simps [simp del]

definition str_int :: "int \<Rightarrow> string" where
  "str_int i = (if i < 0 then CHR ''-'' # str_nat (nat (- i)) else str_nat (nat i))"

fun py_truthy :: "py_value \<Rightarrow> bool" where
  "py_truthy (PyInt n) = (n \<noteq> 0)"
| "py_truthy (PyBool b) = b"

fun py_num :: "py_value \<Rightarrow> int" where
  "py_num (PyInt n) = n"
| "py_num (PyBool b) = (if b then 1 else 0)"

fun py_str :: "py_value \<Rightarrow> string" where
  "py_str (PyInt n) = str_int n"
| "py_str (PyBool b) = (if b then ''True'' else ''False'')"

text \<open>\<open>sub in s\<close> on strings: \<open>sub\<close> occurs in \<open>s\<close> as a contiguous block.\<close>

definition py_in :: "string \<Rightarrow> string \<Rightarrow> bool" where
  "py_in sub s = sublist sub s"

text \<open>\<open>s.split(sep)\<close> for a one-character separator: never empty, \<open>"".split(":") == [""]\<close>.\<close>

fun split_on :: "char \<Rightarrow> string \<Rightarrow> string list" where
  "split_on sep [] = [[]]"
| "split_on sep (c # cs) =
     (if c = sep then [] # split_on sep cs
      else (case split_on sep cs of [] \<Rightarrow> [[c]] | p # ps \<Rightarrow> (c # p) # ps))"

text \<open>
  \<open>int(s)\<close> on an ASCII string, base 10: surrounding whitespace is dropped, then an
  optional sign, then decimal digits in which single underscores may stand between two
  digits. \<open>None\<close> is the \<open>ValueError\<close>. (The interpreter's configurable limit on the
  number of digits is not part of the model.)
\<close>

definition is_space :: "char \<Rightarrow> bool" where
  "is_space c = (c = CHR 0x09 \<or> c = CHR 0x0A \<or> c = CHR 0x0B \<or> c = CHR 0x0C \<or> c = CHR 0x0D
                 \<or> c = CHR '' '')"

definition strip :: "string \<Rightarrow> string" where
  "strip s = rev (dropWhile is_space (rev (dropWhile is_space s)))"

fun int_digits :: "nat \<Rightarrow> string \<Rightarrow> nat option" where
  "int_digits acc [] = Some acc"
| "int_digits acc [c] =
     (case digit_of c of None \<Rightarrow> None | Some v \<Rightarrow> Some (10 * acc + v))"
| "int_digits acc (c # d # ds) =
     (if c = CHR ''_''
      then (case digit_of d of None \<Rightarrow> None | Some v \<Rightarrow> int_digits (10 * acc + v) ds)
      else (case digit_of c of None \<Rightarrow> None | Some v \<Rightarrow> int_digits (10 * acc + v) (d # ds)))"

definition unsigned_int :: "string \<Rightarrow> nat option" where
  "unsigned_int s =
     (case s of [] \<Rightarrow> None
      | d # ds \<Rightarrow> (case digit_of d of None \<Rightarrow> None | Some v \<Rightarrow> int_digits v ds))"

definition py_int :: "string \<Rightarrow> int option" where
  "py_int s =
     (case strip s of [] \<Rightarrow> None
      | c # cs \<Rightarrow>
          if c = CHR ''-'' then map_option (\<lambda>n. - int n) (unsigned_int cs)
          else if c = CHR ''+'' then map_option int (unsigned_int cs)
          else map_option int (unsigned_int (c # cs)))"

section \<open>utils/slot\_utils.py\<close>

text \<open>
  \<open>validate_slot_alignment\<close>: the string is split at every colon and unpacked into
  exactly two parts (anything else is the \<open>ValueError\<close> of the unpacking); only the
  second part is converted with \<open>int\<close>. The first part is bound to \<open>hour\<close> and never read.
\<close>

definition validate_slot_alignment :: "string \<Rightarrow> bool \<times> string" where
  "validate_slot_alignment start_time =
     (case split_on CHR '':'' start_time of
        [hour, minute_s] \<Rightarrow>
          (case py_int minute_s of
             None \<Rightarrow> (False, ''Invalid time format: '' @ start_time @ ''. Expected HH:MM'')
           | Some minute \<Rightarrow>
               if minute \<noteq> 0
               then (False, ''Start time must align with hourly boundaries (e.g., 06:00, 14:00). Got ''
                             @ start_time)
               else (True, ''''))
      | _ \<Rightarrow> (False, ''Invalid time format: '' @ start_time @ ''. Expected HH:MM''))"

text \<open>
  \<open>validate_duration\<close>: the parameters come out of the rules dictionary, so they are
  \<open>py_value\<close>s. \<open>%\<close> by zero raises; HOL's \<open>mod\<close> on \<open>int\<close> is Python's \<open>%\<close> otherwise
  (the result has the sign of the divisor).
\<close>

definition validate_duration :: "int \<Rightarrow> py_value \<Rightarrow> py_value \<Rightarrow> py_exn + bool \<times> string" where
  "validate_duration duration_minutes minimum_duration duration_multiples =
     (if duration_minutes < py_num minimum_duration
      then Inr (False, ''Duration must be at least '' @ py_str minimum_duration @ '' minutes'')
      else if py_num duration_multiples = 0
      then Inl (ZeroDivisionError ''integer modulo by zero'')
      else if duration_minutes mod py_num duration_multiples \<noteq> 0
      then Inr (False, ''Duration must be a multiple of '' @ py_str duration_multiples
                        @ '' minutes. Got '' @ str_int duration_minutes)
      else Inr (True, ''''))"

text \<open>\<open>d.get(key, default)\<close>.\<close>

definition dict_get :: "('k \<rightharpoonup> 'v) \<Rightarrow> 'k \<Rightarrow> 'v \<Rightarrow> 'v" where
  "dict_get d k dflt = (case d k of None \<Rightarrow> dflt | Some v \<Rightarrow> v)"

definition validate_booking_slot ::
  "string \<Rightarrow> int \<Rightarrow> (string \<rightharpoonup> py_value) \<Rightarrow> py_exn + bool \<times> string" where
  "validate_booking_slot start_time duration_minutes booking_rules =
     (let minimum_duration = dict_get booking_rules ''minimum_duration'' (PyInt 60);
          duration_multiples = dict_get booking_rules ''duration_multiples'' (PyInt 60);
          fixed_slots = dict_get booking_rules ''fixed_slots'' (PyBool True);
          (is_aligned, align_msg) =
             (if py_truthy fixed_slots then validate_slot_alignment start_time else (True, ''''))
      in if \<not> is_aligned then Inr (False, align_msg)
         else (case validate_duration duration_minutes minimum_duration duration_multiples of
                 Inl e \<Rightarrow> Inl e
               | Inr (is_valid_duration, duration_msg) \<Rightarrow>
                   if \<not> is_valid_duration then Inr (False, duration_msg) else Inr (True, '''')))"

text \<open>The loop of \<open>validate_court_numbers\<close>: the first court number out of range.\<close>

fun first_invalid_court :: "int list \<Rightarrow> int \<Rightarrow> int option" where
  "first_invalid_court [] number_of_courts = None"
| "first_invalid_court (court_num # rest) number_of_courts =
     (if court_num < 1 \<or> court_num > number_of_courts then Some court_num
      else first_invalid_court rest number_of_courts)"

definition validate_court_numbers :: "int list \<Rightarrow> int \<Rightarrow> bool \<times> string" where
  "validate_court_numbers court_numbers number_of_courts =
     (if court_numbers = [] then (False, ''At least one court must be specified'')
      else (case first_invalid_court court_numbers number_of_courts of
              Some court_num \<Rightarrow>
                (False, ''Invalid court number '' @ str_int court_num @ ''. Facility has courts 1-''
                         @ str_int number_of_courts)
            | None \<Rightarrow>
                if length court_numbers \<noteq> length (remdups court_numbers)
                then (False, ''Duplicate court numbers found in request'')
                else (True, '''')))"

section \<open>utils/time\_utils.py\<close>

text \<open>
  \<open>datetime.strptime(s, "%H:%M")\<close> on an ASCII string: the hour is one digit, or two
  digits from 00 to 23; the minute is one digit, or two digits from 00 to 59; nothing
  else may follow. A \<open>datetime.time\<close> is the pair (hour, minute); times are compared
  field by field.
\<close>

type_synonym dt_time = "nat \<times> nat"

definition strptime_hour :: "string \<Rightarrow> nat option" where
  "strptime_hour s =
     (case s of
        [a] \<Rightarrow> digit_of a
      | [a, b] \<Rightarrow>
          (case (digit_of a, digit_of b) of
             (Some x, Some y) \<Rightarrow> if x \<le> 1 \<or> (x = 2 \<and> y \<le> 3) then Some (10 * x + y) else None
           | _ \<Rightarrow> None)
      | _ \<Rightarrow> None)"

definition strptime_minute :: "string \<Rightarrow> nat option" where
  "strptime_minute s =
     (case s of
        [a] \<Rightarrow> digit_of a
      | [a, b] \<Rightarrow>
          (case (digit_of a, digit_of b) of
             (Some x, Some y) \<Rightarrow> if x \<le> 5 then Some (10 * x + y) else None
           | _ \<Rightarrow> None)
      | _ \<Rightarrow> None)"

definition strptime_HM :: "string \<Rightarrow> dt_time option" where
  "strptime_HM s =
     (case split_on CHR '':'' s of
        [hs, ms] \<Rightarrow>
          (case (strptime_hour hs, strptime_minute ms) of
             (Some h, Some m) \<Rightarrow> Some (h, m)
           | _ \<Rightarrow> None)
      | _ \<Rightarrow> None)"

definition parse_time :: "string \<Rightarrow> py_exn + dt_time" where
  "parse_time time_str =
     (case strptime_HM time_str of
        Some t \<Rightarrow> Inr t
      | None \<Rightarrow> Inl (ValueError (''Invalid time format: '' @ time_str @ ''. Expected HH:MM format.'')))"

fun time_less :: "dt_time \<Rightarrow> dt_time \<Rightarrow> bool" where
  "time_less (h1, m1) (h2, m2) = (h1 < h2 \<or> (h1 = h2 \<and> m1 < m2))"

text \<open>
  Dates are proleptic Gregorian ordinals, as \<open>date.toordinal()\<close> gives them: day 1 is
  0001-01-01 and day 3652059 is 9999-12-31.
\<close>

definition is_leap :: "int \<Rightarrow> bool" where
  "is_leap y = (y mod 4 = 0 \<and> (y mod 100 \<noteq> 0 \<or> y mod 400 = 0))"

definition days_in_month :: "int \<Rightarrow> int \<Rightarrow> int" where
  "days_in_month y m =
     (if m = 2 then (if is_leap y then 29 else 28)
      else if m = 4 \<or> m = 6 \<or> m = 9 \<or> m = 11 then 30 else 31)"

definition days_before_year :: "int \<Rightarrow> int" where
  "days_before_year y = (y - 1) * 365 + (y - 1) div 4 - (y - 1) div 100 + (y - 1) div 400"

definition days_before_month :: "int \<Rightarrow> int \<Rightarrow> int" where
  "days_before_month y m = sum_list (map (days_in_month y) [1..m - 1])"

definition ymd2ord :: "int \<Rightarrow> int \<Rightarrow> int \<Rightarrow> int" where
  "ymd2ord y m d = days_before_year y + days_before_month y m + d"

definition max_ordinal :: int where
  "max_ordinal = 3652059"

text \<open>
  \<open>datetime.strptime(s, "%Y-%m-%d")\<close> on an ASCII string: a year of exactly four
  digits, a month 1..12 and a day 1..31, each of one digit or of two digits (a leading
  zero allowed; the day may also be a blank and a digit); then the date must exist.
\<close>

definition strptime_year :: "string \<Rightarrow> nat option" where
  "strptime_year s =
     (case s of
        [a, b, c, d] \<Rightarrow>
          (case (digit_of a, digit_of b, digit_of c, digit_of d) of
             (Some w, Some x, Some y, Some z) \<Rightarrow> Some (1000 * w + 100 * x + 10 * y + z)
           | _ \<Rightarrow> None)
      | _ \<Rightarrow> None)"

definition strptime_month :: "string \<Rightarrow> nat option" where
  "strptime_month s =
     (case s of
        [a] \<Rightarrow> (case digit_of a of Some x \<Rightarrow> if 1 \<le> x then Some x else None | None \<Rightarrow> None)
      | [a, b] \<Rightarrow>
          (case (digit_of a, digit_of b) of
             (Some x, Some y) \<Rightarrow>
               if (x = 1 \<and> y \<le> 2) \<or> (x = 0 \<and> 1 \<le> y) then Some (10 * x + y) else None
           | _ \<Rightarrow> None)
      | _ \<Rightarrow> None)"

definition strptime_day :: "string \<Rightarrow> nat option" where
  "strptime_day s =
     (case s of
        [a] \<Rightarrow> (case digit_of a of Some x \<Rightarrow> if 1 \<le> x then Some x else None | None \<Rightarrow> None)
      | [a, b] \<Rightarrow>
          (case (if a = CHR '' '' then Some 0 else digit_of a, digit_of b) of
             (Some x, Some y) \<Rightarrow>
               if (x = 3 \<and> y \<le> 1) \<or> x = 1 \<or> x = 2 \<or> (x = 0 \<and> 1 \<le> y)
               then Some (10 * x + y) else None
           | _ \<Rightarrow> None)
      | _ \<Rightarrow> None)"

definition strptime_Ymd :: "string \<Rightarrow> int option" where
  "strptime_Ymd s =
     (case split_on CHR ''-'' s of
        [ys, ms, ds] \<Rightarrow>
          (case (strptime_year ys, strptime_month ms, strptime_day ds) of
             (Some y, Some m, Some d) \<Rightarrow>
               if 1 \<le> y \<and> int d \<le> days_in_month (int y) (int m)
               then Some (ymd2ord (int y) (int m) (int d)) else None
           | _ \<Rightarrow> None)
      | _ \<Rightarrow> None)"

definition parse_date :: "string \<Rightarrow> py_exn + int" where
  "parse_date date_str =
     (case strptime_Ymd date_str of
        Some ord \<Rightarrow> Inr ord
      | None \<Rightarrow> Inl (ValueError (''Invalid date format: '' @ date_str
                                   @ ''. Expected YYYY-MM-DD format.'')))"

text \<open>
  A \<open>datetime\<close> in the fixed zone of the deployment (Asia/Kolkata): the date as an
  ordinal and the minute of the day.
\<close>

record datetime =
  dt_ordinal :: int
  dt_minute :: int

text \<open>
  \<open>tz.localize(naive_dt)\<close>: the zone is attached. pytz looks one day back and one day
  ahead to find the zone's offset, which overflows on the first and the last day of the
  calendar.
\<close>

definition localize :: "datetime \<Rightarrow> py_exn + datetime" where
  "localize naive_dt =
     (if dt_ordinal naive_dt \<le> 1 \<or> max_ordinal \<le> dt_ordinal naive_dt
      then Inl (OverflowError ''date value out of range'')
      else Inr naive_dt)"

definition combine_datetime :: "string \<Rightarrow> string \<Rightarrow> py_exn + datetime" where
  "combine_datetime date_str time_str =
     (case parse_date date_str of
        Inl e \<Rightarrow> Inl e
      | Inr date_obj \<Rightarrow>
          (case parse_time time_str of
             Inl e \<Rightarrow> Inl e
           | Inr (h, m) \<Rightarrow>
               localize \<lparr>dt_ordinal = date_obj, dt_minute = 60 * int h + int m\<rparr>))"

text \<open>
  \<open>start_dt + timedelta(minutes=duration_minutes)\<close>: the \<open>timedelta\<close> must have at most
  999999999 days in either direction, and the sum must be a date of the calendar.
\<close>

definition add_minutes :: "datetime \<Rightarrow> int \<Rightarrow> py_exn + datetime" where
  "add_minutes start_dt duration_minutes =
     (if duration_minutes div 1440 < - 999999999 \<or> 999999999 < duration_minutes div 1440
      then Inl (OverflowError (''days='' @ str_int (duration_minutes div 1440)
                               @ ''; must have magnitude <= 999999999''))
      else (let total = dt_ordinal start_dt * 1440 + dt_minute start_dt + duration_minutes
            in if total div 1440 < 1 \<or> max_ordinal < total div 1440
               then Inl (OverflowError ''date value out of range'')
               else Inr \<lparr>dt_ordinal = total div 1440, dt_minute = total mod 1440\<rparr>))"

definition get_end_datetime :: "datetime \<Rightarrow> int \<Rightarrow> py_exn + datetime" where
  "get_end_datetime start_dt duration_minutes = add_minutes start_dt duration_minutes"

text \<open>\<open>dt.strftime("%H:%M")\<close>: two digits each.\<close>

definition two_digits :: "nat \<Rightarrow> string" where
  "two_digits n = [digit_char (n div 10), digit_char (n mod 10)]"

definition strftime_HM :: "datetime \<Rightarrow> string" where
  "strftime_HM dt =
     two_digits (nat (dt_minute dt div 60)) @ '':'' @ two_digits (nat (dt_minute dt mod 60))"

definition is_within_operating_hours ::
  "string \<Rightarrow> string \<Rightarrow> string \<Rightarrow> string \<Rightarrow> bool \<times> string" where
  "is_within_operating_hours start_time end_time open_time close_time =
     (case parse_time start_time of
        Inl e \<Rightarrow> (False, str_exn e)
      | Inr start \<Rightarrow>
     (case parse_time end_time of
        Inl e \<Rightarrow> (False, str_exn e)
      | Inr end_t \<Rightarrow>
     (case parse_time open_time of
        Inl e \<Rightarrow> (False, str_exn e)
      | Inr open_t \<Rightarrow>
     (case parse_time close_time of
        Inl e \<Rightarrow> (False, str_exn e)
      | Inr close_t \<Rightarrow>
          if time_less start open_t then (False, ''Facility opens at '' @ open_time)
          else if time_less close_t end_t then (False, ''Facility closes at '' @ close_time)
          else (True, '''')))))"

text \<open>
  \<open>calculate_end_time\<close> reads the clock: \<open>today\<close> is the ordinal of
  \<open>datetime.today()\<close>. The date only matters for the overflow; the result is the wall
  clock time of the end, without its date.
\<close>

definition calculate_end_time :: "int \<Rightarrow> string \<Rightarrow> int \<Rightarrow> py_exn + string" where
  "calculate_end_time today start_time duration_minutes =
     (case parse_time start_time of
        Inl e \<Rightarrow> Inl e
      | Inr (h, m) \<Rightarrow>
          (case add_minutes \<lparr>dt_ordinal = today, dt_minute = 60 * int h + int m\<rparr> duration_minutes of
             Inl e \<Rightarrow> Inl e
           | Inr end_dt \<Rightarrow> Inr (strftime_HM end_dt)))"

section \<open>schemas\<close>

text \<open>
  \<open>Facility\<close>: the fields that the booking operations read (pricing, rentals and
  coaching are only used to build the prompt text).
\<close>

record facility =
  facility_id :: string
  facility_name :: string
  phone_number :: string
  number_of_courts :: int
  open_time :: string
  close_time :: string
  booking_rules :: "string \<rightharpoonup> py_value"

record check_availability_request =
  car_facility_id :: string
  car_date :: string
  car_start_time :: string
  car_duration_minutes :: int
  car_number_of_courts :: int

text \<open>
  The \<open>data\<close> of an availability response: on a shortfall the free courts and the
  requested number; otherwise the free courts, the facility's number of courts, and the
  date, start time and duration of the request.
\<close>

datatype availability_data =
    ShortfallData "int list" int
  | AvailableData "int list" int string string int

record check_availability_response =
  ca_success :: bool
  ca_available :: bool
  ca_free_courts :: "int list"
  ca_reason_if_not_available :: "string option"
  ca_data :: "availability_data option"
  ca_error :: "string option"

record create_booking_request =
  cbr_facility_id :: string
  cbr_date :: string
  cbr_start_time :: string
  cbr_duration_minutes :: int
  cbr_name :: string
  cbr_phone_number :: string
  cbr_court_numbers :: "int list"

record booking_data =
  bd_facility :: string
  bd_court_numbers :: "int list"
  bd_date :: string
  bd_start_time :: string
  bd_end_time :: string
  bd_duration_minutes :: int
  bd_customer_name :: string
  bd_customer_phone :: string
  bd_booking_ids :: "string list"

record create_booking_response =
  cb_success :: bool
  cb_booking_id :: "string option"
  cb_message :: "string option"
  cb_data :: "booking_data option"
  cb_error :: "string option"

section \<open>services/calendar\_service.py\<close>

text \<open>
  The external calendar. An event, as the service reads it, has an optional summary
  and an optional description. The client is a parameter: a state machine on a store
  \<open>'s\<close> with the two calls the service makes. \<open>events_list\<close> is
  \<open>events().list(calendarId, timeMin, timeMax, ...).execute()\<close> and gives the value
  under \<open>items\<close> when the key is there; \<open>events_insert\<close> is
  \<open>events().insert(calendarId, body).execute()\<close> followed by the read of \<open>id\<close>.
  Either call may raise. The instants stand for their \<open>isoformat()\<close> texts.
\<close>

record event =
  summary :: "string option"
  description :: "string option"

record event_body =
  eb_summary :: string
  eb_description :: string
  eb_start :: datetime
  eb_end :: datetime

record 's calendar_client =
  events_list :: "string \<Rightarrow> datetime \<Rightarrow> datetime \<Rightarrow> 's \<Rightarrow> (py_exn + event list option) \<times> 's"
  events_insert :: "string \<Rightarrow> event_body \<Rightarrow> 's \<Rightarrow> (py_exn + string) \<times> 's"

record 's calendar_service =
  calendar_id :: string
  service :: "'s calendar_client option"

text \<open>
  The world outside the process: the store of the calendar, and the bodies of the
  insert calls issued so far, in order.
\<close>

record 's world =
  store :: 's
  insert_calls :: "event_body list"

definition opt_str :: "string option \<Rightarrow> string" where
  "opt_str v = (case v of None \<Rightarrow> '''' | Some s \<Rightarrow> s)"

definition event_blocks :: "int \<Rightarrow> string \<Rightarrow> event \<Rightarrow> bool" where
  "event_blocks court_number fid ev =
     (let event_summary = opt_str (summary ev);
          event_description = opt_str (description ev)
      in py_in (''Court '' @ str_int court_number) event_summary
         \<and> (py_in fid event_description \<or> py_in fid event_summary))"

text \<open>The loop over the events: \<open>False\<close> at the first event that blocks the court.\<close>

fun no_blocking_event :: "int \<Rightarrow> string \<Rightarrow> event list \<Rightarrow> bool" where
  "no_blocking_event court_number fid [] = True"
| "no_blocking_event court_number fid (ev # evs) =
     (if event_blocks court_number fid ev then False
      else no_blocking_event court_number fid evs)"

definition check_court_availability ::
  "'s calendar_service \<Rightarrow> int \<Rightarrow> datetime \<Rightarrow> datetime \<Rightarrow> string \<Rightarrow> 's world
     \<Rightarrow> (py_exn + bool) \<times> 's world" where
  "check_court_availability cal court_number start_dt end_dt fid w =
     (case service cal of
        None \<Rightarrow> (Inr True, w)
      | Some client \<Rightarrow>
          (case events_list client (calendar_id cal) start_dt end_dt (store w) of
             (Inl e, s') \<Rightarrow>
               if is_HttpError e then (Inr True, w\<lparr>store := s'\<rparr>) else (Inl e, w\<lparr>store := s'\<rparr>)
           | (Inr events_result, s') \<Rightarrow>
               (let events = (case events_result of None \<Rightarrow> [] | Some evs \<Rightarrow> evs)
                in (Inr (no_blocking_event court_number fid events), w\<lparr>store := s'\<rparr>))))"

text \<open>
  The loop of \<open>get_available_courts\<close> over \<open>range(1, total_courts + 1)\<close>; an exception
  that \<open>check_court_availability\<close> does not catch ends it.
\<close>

fun available_loop ::
  "'s calendar_service \<Rightarrow> string \<Rightarrow> datetime \<Rightarrow> datetime \<Rightarrow> int list \<Rightarrow> int list \<Rightarrow> 's world
     \<Rightarrow> (py_exn + int list) \<times> 's world" where
  "available_loop cal fid start_dt end_dt [] acc w = (Inr acc, w)"
| "available_loop cal fid start_dt end_dt (court_num # rest) acc w =
     (case check_court_availability cal court_num start_dt end_dt fid w of
        (Inl e, w') \<Rightarrow> (Inl e, w')
      | (Inr free, w') \<Rightarrow>
          available_loop cal fid start_dt end_dt rest (if free then acc @ [court_num] else acc) w')"

definition get_available_courts ::
  "'s calendar_service \<Rightarrow> string \<Rightarrow> int \<Rightarrow> datetime \<Rightarrow> datetime \<Rightarrow> 's world
     \<Rightarrow> (py_exn + int list) \<times> 's world" where
  "get_available_courts cal fid total_courts start_dt end_dt w =
     available_loop cal fid start_dt end_dt [1..total_courts] [] w"

definition newline :: string where
  "newline = [CHR 0x0A]"

definition create_booking_event ::
  "'s calendar_service \<Rightarrow> string \<Rightarrow> string \<Rightarrow> int \<Rightarrow> string \<Rightarrow> string \<Rightarrow> datetime \<Rightarrow> datetime
     \<Rightarrow> string \<Rightarrow> string \<Rightarrow> int \<Rightarrow> 's world \<Rightarrow> (py_exn + string option) \<times> 's world" where
  "create_booking_event cal fname fid court_number customer_name customer_phone start_dt end_dt
       date_str start_time_str duration w =
     (case service cal of
        None \<Rightarrow> (Inr None, w)
      | Some client \<Rightarrow>
          (let event_title = ''Court '' @ str_int court_number @ '' Booking - '' @ customer_name;
               event_description =
                 ''Customer Name: '' @ customer_name @ newline
                 @ ''Phone: '' @ customer_phone @ newline
                 @ ''Facility: '' @ fname @ '' ('' @ fid @ '')'' @ newline
                 @ ''Court Number: '' @ str_int court_number @ newline
                 @ ''Date: '' @ date_str @ newline
                 @ ''Start Time: '' @ start_time_str @ newline
                 @ ''End Time: '' @ strftime_HM end_dt @ newline
                 @ ''Duration: '' @ str_int duration @ '' minutes'';
               body = \<lparr>eb_summary = event_title, eb_description = event_description,
                        eb_start = start_dt, eb_end = end_dt\<rparr>
           in (case events_insert client (calendar_id cal) body (store w) of
                 (Inl e, s') \<Rightarrow>
                   if is_HttpError e
                   then (Inr None, \<lparr>store = s', insert_calls = insert_calls w @ [body]\<rparr>)
                   else (Inl e, \<lparr>store = s', insert_calls = insert_calls w @ [body]\<rparr>)
               | (Inr event_id, s') \<Rightarrow>
                   (Inr (Some event_id), \<lparr>store = s', insert_calls = insert_calls w @ [body]\<rparr>))))"

section \<open>services/booking\_service.py\<close>

text \<open>
  The operations take the calendar service, the facility directory
  (\<open>facility_service.facilities\<close>), the ordinal of today's date, the request and the
  world, and return the response with the world after the call. The \<open>try\<close> around each
  body turns every exception into a failure response.
\<close>

definition ca_exception :: "py_exn \<Rightarrow> check_availability_response" where
  "ca_exception e =
     \<lparr>ca_success = False, ca_available = False, ca_free_courts = [],
      ca_reason_if_not_available = None, ca_data = None,
      ca_error = Some (''Error checking availability: '' @ str_exn e)\<rparr>"

definition ca_rejected :: "string \<Rightarrow> check_availability_response" where
  "ca_rejected reason =
     \<lparr>ca_success = False, ca_available = False, ca_free_courts = [],
      ca_reason_if_not_available = Some reason, ca_data = None, ca_error = None\<rparr>"

definition check_availability ::
  "'s calendar_service \<Rightarrow> (string \<rightharpoonup> facility) \<Rightarrow> int \<Rightarrow> check_availability_request \<Rightarrow> 's world
     \<Rightarrow> check_availability_response \<times> 's world" where
  "check_availability cal facilities today request w =
     (case facilities (car_facility_id request) of
        None \<Rightarrow>
          (\<lparr>ca_success = False, ca_available = False, ca_free_courts = [],
            ca_reason_if_not_available = None, ca_data = None,
            ca_error = Some (''Facility not found: '' @ car_facility_id request)\<rparr>, w)
      | Some fac \<Rightarrow>
     (case validate_booking_slot (car_start_time request) (car_duration_minutes request)
             (booking_rules fac) of
        Inl e \<Rightarrow> (ca_exception e, w)
      | Inr (is_valid_slot, slot_error) \<Rightarrow>
     if \<not> is_valid_slot then (ca_rejected slot_error, w) else
     (case calculate_end_time today (car_start_time request) (car_duration_minutes request) of
        Inl e \<Rightarrow> (ca_exception e, w)
      | Inr end_time \<Rightarrow>
     (case is_within_operating_hours (car_start_time request) end_time (open_time fac)
             (close_time fac) of
        (is_in_hours, hours_error) \<Rightarrow>
     if \<not> is_in_hours then (ca_rejected hours_error, w) else
     (case combine_datetime (car_date request) (car_start_time request) of
        Inl e \<Rightarrow> (ca_exception e, w)
      | Inr start_dt \<Rightarrow>
     (case get_end_datetime start_dt (car_duration_minutes request) of
        Inl e \<Rightarrow> (ca_exception e, w)
      | Inr end_dt \<Rightarrow>
     (case get_available_courts cal (facility_id fac) (number_of_courts fac) start_dt end_dt w of
        (Inl e, w') \<Rightarrow> (ca_exception e, w')
      | (Inr available_courts, w') \<Rightarrow>
          if int (length available_courts) < car_number_of_courts request
          then (\<lparr>ca_success = True, ca_available = False, ca_free_courts = available_courts,
                  ca_reason_if_not_available =
                    Some (''Only '' @ str_int (int (length available_courts))
                          @ '' court(s) available, but '' @ str_int (car_number_of_courts request)
                          @ '' requested''),
                  ca_data = Some (ShortfallData available_courts (car_number_of_courts request)),
                  ca_error = None\<rparr>, w')
          else (\<lparr>ca_success = True, ca_available = True, ca_free_courts = available_courts,
                  ca_reason_if_not_available = None,
                  ca_data = Some (AvailableData available_courts (number_of_courts fac)
                                    (car_date request) (car_start_time request)
                                    (car_duration_minutes request)),
                  ca_error = None\<rparr>, w'))))))))"

definition cb_failure :: "string \<Rightarrow> create_booking_response" where
  "cb_failure msg =
     \<lparr>cb_success = False, cb_booking_id = None, cb_message = None, cb_data = None,
      cb_error = Some msg\<rparr>"

definition cb_exception :: "py_exn \<Rightarrow> create_booking_response" where
  "cb_exception e = cb_failure (''Error creating booking: '' @ str_exn e)"

text \<open>The first loop of \<open>create_booking\<close>: the first requested court that is not free.\<close>

fun first_unavailable :: "int list \<Rightarrow> int list \<Rightarrow> int option" where
  "first_unavailable [] available_courts = None"
| "first_unavailable (court_num # rest) available_courts =
     (if court_num \<notin> set available_courts then Some court_num
      else first_unavailable rest available_courts)"

text \<open>
  The second loop: one create-event call per requested court, in order; an id is kept
  when it is truthy (neither \<open>None\<close> nor the empty string).
\<close>

fun booking_loop ::
  "'s calendar_service \<Rightarrow> facility \<Rightarrow> create_booking_request \<Rightarrow> datetime \<Rightarrow> datetime \<Rightarrow> int list
     \<Rightarrow> string list \<Rightarrow> 's world \<Rightarrow> (py_exn + string list) \<times> 's world" where
  "booking_loop cal fac request start_dt end_dt [] booking_ids w = (Inr booking_ids, w)"
| "booking_loop cal fac request start_dt end_dt (court_num # rest) booking_ids w =
     (case create_booking_event cal (facility_name fac) (facility_id fac) court_num
             (cbr_name request) (cbr_phone_number request) start_dt end_dt (cbr_date request)
             (cbr_start_time request) (cbr_duration_minutes request) w of
        (Inl e, w') \<Rightarrow> (Inl e, w')
      | (Inr event_id, w') \<Rightarrow>
          booking_loop cal fac request start_dt end_dt rest
            (case event_id of
               None \<Rightarrow> booking_ids
             | Some i \<Rightarrow> if i \<noteq> [] then booking_ids @ [i] else booking_ids) w')"

text \<open>\<open>sep.join(parts)\<close>.\<close>

fun join :: "string \<Rightarrow> string list \<Rightarrow> string" where
  "join sep [] = []"
| "join sep [x] = x"
| "join sep (x # y # ys) = x @ sep @ join sep (y # ys)"

definition create_booking ::
  "'s calendar_service \<Rightarrow> (string \<rightharpoonup> facility) \<Rightarrow> int \<Rightarrow> create_booking_request \<Rightarrow> 's world
     \<Rightarrow> create_booking_response \<times> 's world" where
  "create_booking cal facilities today request w =
     (if service cal = None
      then (cb_failure ''Calendar service is not initialized. Please configure Google Calendar integration.'', w)
      else
     (case facilities (cbr_facility_id request) of
        None \<Rightarrow> (cb_failure (''Facility not found: '' @ cbr_facility_id request), w)
      | Some fac \<Rightarrow>
     (case validate_booking_slot (cbr_start_time request) (cbr_duration_minutes request)
             (booking_rules fac) of
        Inl e \<Rightarrow> (cb_exception e, w)
      | Inr (is_valid_slot, slot_error) \<Rightarrow>
     if \<not> is_valid_slot then (cb_failure (''Invalid slot: '' @ slot_error), w) else
     (case validate_court_numbers (cbr_court_numbers request) (number_of_courts fac) of
        (is_valid_courts, courts_error) \<Rightarrow>
     if \<not> is_valid_courts then (cb_failure (''Invalid court numbers: '' @ courts_error), w) else
     (case calculate_end_time today (cbr_start_time request) (cbr_duration_minutes request) of
        Inl e \<Rightarrow> (cb_exception e, w)
      | Inr end_time \<Rightarrow>
     (case is_within_operating_hours (cbr_start_time request) end_time (open_time fac)
             (close_time fac) of
        (is_in_hours, hours_error) \<Rightarrow>
     if \<not> is_in_hours then (cb_failure (''Outside operating hours: '' @ hours_error), w) else
     (case combine_datetime (cbr_date request) (cbr_start_time request) of
        Inl e \<Rightarrow> (cb_exception e, w)
      | Inr start_dt \<Rightarrow>
     (case get_end_datetime start_dt (cbr_duration_minutes request) of
        Inl e \<Rightarrow> (cb_exception e, w)
      | Inr end_dt \<Rightarrow>
     (case get_available_courts cal (facility_id fac) (number_of_courts fac) start_dt end_dt w of
        (Inl e, w1) \<Rightarrow> (cb_exception e, w1)
      | (Inr available_courts, w1) \<Rightarrow>
     (case first_unavailable (cbr_court_numbers request) available_courts of
        Some court_num \<Rightarrow>
          (cb_failure (''Court '' @ str_int court_num @ '' is not available at the requested time''),
           w1)
      | None \<Rightarrow>
     (case booking_loop cal fac request start_dt end_dt (cbr_court_numbers request) [] w1 of
        (Inl e, w2) \<Rightarrow> (cb_exception e, w2)
      | (Inr booking_ids, w2) \<Rightarrow>
          if booking_ids = [] then (cb_failure ''Failed to create calendar events'', w2)
          else (\<lparr>cb_success = True,
                  cb_booking_id = Some (join '','' booking_ids),
                  cb_message =
                    Some (''Booking confirmed for '' @ cbr_name request @ ''! Courts ''
                          @ join '', '' (map str_int (cbr_court_numbers request))
                          @ '' on '' @ cbr_date request @ '' at '' @ cbr_start_time request
                          @ '' for '' @ str_int (cbr_duration_minutes request) @ '' minutes.''),
                  cb_data =
                    Some \<lparr>bd_facility = facility_name fac,
                          bd_court_numbers = cbr_court_numbers request,
                          bd_date = cbr_date request,
                          bd_start_time = cbr_start_time request,
                          bd_end_time = end_time,
                          bd_duration_minutes = cbr_duration_minutes request,
                          bd_customer_name = cbr_name request,
                          bd_customer_phone = cbr_phone_number request,
                          bd_booking_ids = booking_ids\<rparr>,
                  cb_error = None\<rparr>, w2))))))))))))"

section \<open>Scenarios\<close>

text \<open>
  The facility of the specification's scenarios: four courts, open 06:00 to 22:00,
  bookings of at least 60 minutes in multiples of 60, fixed slots.
\<close>

definition scenario_facility :: facility where
  "scenario_facility =
     \<lparr>facility_id = ''pickle_x'', facility_name = ''Pickle X'',
      phone_number = ''+910000000000'', number_of_courts = 4,
      open_time = ''06:00'', close_time = ''22:00'',
      booking_rules = [''minimum_duration'' \<mapsto> PyInt 60, ''duration_multiples'' \<mapsto> PyInt 60,
                       ''fixed_slots'' \<mapsto> PyBool True]\<rparr>"

definition scenario_facilities :: "string \<rightharpoonup> facility" where
  "scenario_facilities = [''pickle_x'' \<mapsto> scenario_facility]"

text \<open>
  A calendar client for the scenarios. Its store counts the insert calls made; every
  read gives \<open>listing\<close>, and the insert call number \<open>k\<close> (from 0) gives \<open>inserted k\<close>.
\<close>

definition stub_client ::
  "(py_exn + event list option) \<Rightarrow> (nat \<Rightarrow> py_exn + string) \<Rightarrow> nat calendar_client" where
  "stub_client listing inserted =
     \<lparr>events_list = (\<lambda>cid time_min time_max s. (listing, s)),
      events_insert = (\<lambda>cid body s. (inserted s, Suc s))\<rparr>"

definition stub_calendar ::
  "(py_exn + event list option) \<Rightarrow> (nat \<Rightarrow> py_exn + string) \<Rightarrow> nat calendar_service" where
  "stub_calendar listing inserted =
     \<lparr>calendar_id = ''primary'', service = Some (stub_client listing inserted)\<rparr>"

text \<open>The two insert behaviours of the scenarios.\<close>

definition always_inserts :: "nat \<Rightarrow> py_exn + string" where
  "always_inserts k = Inr ''evt''"

definition second_insert_fails :: "nat \<Rightarrow> py_exn + string" where
  "second_insert_fails k = (if k = 0 then Inr ''evt1'' else Inl (HttpError ''503 backend error''))"

definition no_calendar :: "nat calendar_service" where
  "no_calendar = \<lparr>calendar_id = ''primary'', service = None\<rparr>"

definition fresh_world :: "nat world" where
  "fresh_world = \<lparr>store = 0, insert_calls = []\<rparr>"

text \<open>An event as \<open>create_booking_event\<close> writes it, for a court of the scenario facility.\<close>

definition booked :: "int \<Rightarrow> event" where
  "booked court_number =
     \<lparr>summary = Some (''Court '' @ str_int court_number @ '' Booking - Ravi''),
      description = Some (''Facility: Pickle X (pickle_x)'')\<rparr>"

text \<open>2024-12-25, 14:00 to 15:00.\<close>

definition slot_start :: datetime where
  "slot_start = \<lparr>dt_ordinal = 739245, dt_minute = 840\<rparr>"

definition slot_end :: datetime where
  "slot_end = \<lparr>dt_ordinal = 739245, dt_minute = 900\<rparr>"

definition availability_request :: "string \<Rightarrow> string \<Rightarrow> int \<Rightarrow> int \<Rightarrow> check_availability_request" where
  "availability_request date_str start_time_str duration n =
     \<lparr>car_facility_id = ''pickle_x'', car_date = date_str, car_start_time = start_time_str,
      car_duration_minutes = duration, car_number_of_courts = n\<rparr>"

definition booking_request :: "int list \<Rightarrow> create_booking_request" where
  "booking_request courts =
     \<lparr>cbr_facility_id = ''pickle_x'', cbr_date = ''2024-12-25'', cbr_start_time = ''14:00'',
      cbr_duration_minutes = 60, cbr_name = ''Asha'', cbr_phone_number = ''+919876543210'',
      cbr_court_numbers = courts\<rparr>"

text \<open>
  The answer of the store for court \<open>c\<close> at the moment the resolver asks for it, that
  is after its reads for the courts \<open>1..c - 1\<close>.
\<close>

definition reported_free ::
  "'s calendar_service \<Rightarrow> string \<Rightarrow> datetime \<Rightarrow> datetime \<Rightarrow> 's world \<Rightarrow> int \<Rightarrow> bool" where
  "reported_free cal fid start_dt end_dt w c =
     (fst (check_court_availability cal c start_dt end_dt fid
             (snd (get_available_courts cal fid (c - 1) start_dt end_dt w))) = Inr True)"

section \<open>Slot validation\<close>



text \<open>
  Claim C6, as stated, fails: the minimum duration is checked before the multiple, and
  its reason names the minimum. With a minimum of 60 and a multiple of 30, a duration
  of 45 is not a multiple of 30, and the reason does not contain 30.
\<close>

theorem validate_booking_slot_multiple_counterexample:
  "(45::int) mod 30 \<noteq> 0
   \<and> validate_slot_alignment ''14:00'' = (True, '''')
   \<and> validate_booking_slot ''14:00'' 45
        [''minimum_duration'' \<mapsto> PyInt 60, ''duration_multiples'' \<mapsto> PyInt 30]
       = Inr (False, ''Duration must be at least 60 minutes'')
   \<and> \<not> py_in (py_str (PyInt 30)) ''Duration must be at least 60 minutes''"
  by code_simp

text \<open>
  Claim C6, amended. For every duration that reaches the configured minimum and is not
  a multiple of the configured, non-zero \<open>duration_multiples\<close>, and every start time
  that passes the alignment check when fixed slots are on, \<open>validate_booking_slot\<close>
  returns false with the reason "Duration must be a multiple of M minutes. Got D",
  which contains the configured multiple.
\<close>

theorem validate_booking_slot_not_a_multiple:
  assumes "py_truthy (dict_get rules ''fixed_slots'' (PyBool True)) \<longrightarrow>
             validate_slot_alignment st = (True, '''')"
    and "py_num (dict_get rules ''minimum_duration'' (PyInt 60)) \<le> d"
    and "py_num (dict_get rules ''duration_multiples'' (PyInt 60)) \<noteq> 0"
    and "d mod py_num (dict_get rules ''duration_multiples'' (PyInt 60)) \<noteq> 0"
  shows "\<exists>reason. validate_booking_slot st d rules = Inr (False, reason)
           \<and> reason = ''Duration must be a multiple of ''
                        @ py_str (dict_get rules ''duration_multiples'' (PyInt 60))
                        @ '' minutes. Got '' @ str_int d
           \<and> py_in (py_str (dict_get rules ''duration_multiples'' (PyInt 60))) reason"
proof -
  let ?m = "py_str (dict_get rules ''duration_multiples'' (PyInt 60))"
  let ?reason = "''Duration must be a multiple of '' @ ?m @ '' minutes. Got '' @ str_int d"
  have run: "validate_booking_slot st d rules = Inr (False, ?reason)"
    using assms by (auto simp: validate_booking_slot_def validate_duration_def Let_def)
  have "sublist ?m (''Duration must be a multiple of '' @ ?m @ ('' minutes. Got '' @ str_int d))"
    by (rule sublist_appendI)
  then have "py_in ?m ?reason" by (simp add: py_in_def)
  with run show ?thesis by blast
qed

text \<open>Witness for the amended C6: the scenario facility's rules and 90 minutes at 14:00.\<close>

theorem validate_booking_slot_not_a_multiple_witness:
  "validate_booking_slot ''14:00'' 90 (booking_rules scenario_facility)
     = Inr (False, ''Duration must be a multiple of 60 minutes. Got 90'')
   \<and> py_in ''60'' ''Duration must be a multiple of 60 minutes. Got 90''"
proof -
  have h1: "py_truthy (dict_get (booking_rules scenario_facility) ''fixed_slots'' (PyBool True)) \<longrightarrow>
             validate_slot_alignment ''14:00'' = (True, '''')"
    by code_simp
  have h2: "py_num (dict_get (booking_rules scenario_facility) ''minimum_duration'' (PyInt 60)) \<le> 90"
    by code_simp
  have h3: "py_num (dict_get (booking_rules scenario_facility) ''duration_multiples'' (PyInt 60)) \<noteq> 0"
    by code_simp
  have h4: "90 mod py_num (dict_get (booking_rules scenario_facility) ''duration_multiples'' (PyInt 60)) \<noteq> 0"
    by code_simp
  have m: "py_str (dict_get (booking_rules scenario_facility) ''duration_multiples'' (PyInt 60)) = ''60''"
    by code_simp
  have d: "str_int 90 = ''90''"
    by code_simp
  show ?thesis
    using validate_booking_slot_not_a_multiple [OF h1 h2 h3 h4] m d by simp
qed

text \<open>
  On a string that is a time for \<open>parse_time\<close>, the alignment check is exactly the
  test that the minute is zero.
\<close>

lemma digit_of_digit_char: "n < 10 \<Longrightarrow> digit_of (digit_char n) = Some n"
  by (simp add: digit_of_def digit_char_def Let_def)

lemma digit_of_range: "digit_of c = Some v \<Longrightarrow> v < 10 \<and> of_char c = 48 + v"
  by (auto simp: digit_of_def Let_def split: if_splits)

lemma digit_of_plain:
  assumes "digit_of c = Some v"
  shows "\<not> is_space c" "c \<noteq> CHR ''-''" "c \<noteq> CHR ''+''" "c \<noteq> CHR ''_''" "c \<noteq> CHR '':''"
  using digit_of_range[OF assms] by (auto simp: is_space_def)

lemma py_int_minute: "strptime_minute ms = Some m \<Longrightarrow> py_int ms = Some (int m)"
  by (auto simp: strptime_minute_def py_int_def strip_def unsigned_int_def digit_of_plain
           split: list.splits option.splits if_splits)

lemma validate_slot_alignment_well_formed:
  assumes "parse_time st = Inr (h, m)"
  shows "validate_slot_alignment st =
           (if m = 0 then (True, '''')
            else (False, ''Start time must align with hourly boundaries (e.g., 06:00, 14:00). Got ''
                          @ st))"
proof -
  from assms obtain hs ms where
    parts: "split_on CHR '':'' st = [hs, ms]" and mm: "strptime_minute ms = Some m"
    by (auto simp: parse_time_def strptime_HM_def split: option.splits list.splits)
  from mm have "py_int ms = Some (int m)" by (rule py_int_minute)
  with parts show ?thesis by (simp add: validate_slot_alignment_def)
qed

text \<open>
  Claim C7: under fixed slots a start time is accepted exactly when its minute is zero,
  and every string that is not a time HH:MM is rejected with a format error. The
  alignment check never looks at the hour: "ab:00" is accepted by
  \<open>validate_slot_alignment\<close> and by \<open>validate_booking_slot\<close> under fixed slots, while
  \<open>parse_time\<close>, which the later steps use, rejects it as an invalid time format.
\<close>

theorem validate_slot_alignment_ignores_hour:
  "validate_slot_alignment ''ab:00'' = (True, '''')
   \<and> validate_booking_slot ''ab:00'' 60 [''fixed_slots'' \<mapsto> PyBool True] = Inr (True, '''')
   \<and> parse_time ''ab:00''
       = Inl (ValueError ''Invalid time format: ab:00. Expected HH:MM format.'')"
  by code_simp

section \<open>Operating hours\<close>

text \<open>
  Claim C5, as stated, fails: when the start is before opening and the end is after
  closing, the reason is the opening one, so "closes at" is not returned exactly when
  the end is after closing. Start 05:00, end 23:00, open 06:00, close 22:00.
\<close>

theorem is_within_operating_hours_counterexample:
  "parse_time ''23:00'' = Inr (23, 0) \<and> parse_time ''22:00'' = Inr (22, 0)
   \<and> time_less (22, 0) (23, 0)
   \<and> is_within_operating_hours ''05:00'' ''23:00'' ''06:00'' ''22:00''
       = (False, ''Facility opens at 06:00'')"
  by code_simp

text \<open>
  Claim C5, amended. For well-formed times, \<open>is_within_operating_hours\<close> returns failure
  with "Facility opens at X" exactly when start < open; failure with "Facility closes
  at X" exactly when start >= open and end > close; and success exactly when
  start >= open and end <= close, so that start = open and end = close pass.
\<close>

theorem is_within_operating_hours_cases:
  assumes "parse_time st = Inr s" and "parse_time et = Inr e"
    and "parse_time ot = Inr opn" and "parse_time ct = Inr cl"
  shows "(is_within_operating_hours st et ot ct = (False, ''Facility opens at '' @ ot)
            \<longleftrightarrow> time_less s opn)
       \<and> (is_within_operating_hours st et ot ct = (False, ''Facility closes at '' @ ct)
            \<longleftrightarrow> \<not> time_less s opn \<and> time_less cl e)
       \<and> (is_within_operating_hours st et ot ct = (True, '''')
            \<longleftrightarrow> \<not> time_less s opn \<and> \<not> time_less cl e)
       \<and> (s = opn \<and> e = cl \<longrightarrow> is_within_operating_hours st et ot ct = (True, ''''))"
  using assms by (cases s; cases e) (auto simp: is_within_operating_hours_def)

text \<open>
  Witness for the amended C5: a booking from opening to closing passes; one that starts
  an hour early gives the opening reason; one that ends an hour late the closing one.
\<close>

theorem is_within_operating_hours_cases_witness:
  "is_within_operating_hours ''06:00'' ''22:00'' ''06:00'' ''22:00'' = (True, '''')
   \<and> is_within_operating_hours ''05:00'' ''06:00'' ''06:00'' ''22:00''
       = (False, ''Facility opens at 06:00'')
   \<and> is_within_operating_hours ''21:00'' ''23:00'' ''06:00'' ''22:00''
       = (False, ''Facility closes at 22:00'')"
proof -
  have p5: "parse_time ''05:00'' = Inr (5, 0)" by code_simp
  have p6: "parse_time ''06:00'' = Inr (6, 0)" by code_simp
  have p21: "parse_time ''21:00'' = Inr (21, 0)" by code_simp
  have p22: "parse_time ''22:00'' = Inr (22, 0)" by code_simp
  have p23: "parse_time ''23:00'' = Inr (23, 0)" by code_simp
  show ?thesis
    using is_within_operating_hours_cases [OF p6 p22 p6 p22]
          is_within_operating_hours_cases [OF p5 p6 p6 p22]
          is_within_operating_hours_cases [OF p21 p23 p6 p22]
    by simp
qed

text \<open>
  The end time that \<open>calculate_end_time\<close> returns is read back by \<open>parse_time\<close> as
  the start plus the duration modulo one day: the date of the end is lost.
\<close>

lemma digit_char_not_colon: "n < 10 \<Longrightarrow> digit_char n \<noteq> CHR '':''"
  using digit_of_digit_char[of n] digit_of_plain(5)[of "digit_char n" n] by simp

lemma parse_time_two_digits:
  assumes "hh < 24" and "mm < 60"
  shows "parse_time (two_digits hh @ '':'' @ two_digits mm) = Inr (hh, mm)"
proof -
  have d: "hh div 10 < 10" "hh mod 10 < 10" "mm div 10 < 10" "mm mod 10 < 10"
    using assms by auto
  have s: "split_on CHR '':'' (two_digits hh @ '':'' @ two_digits mm) = [two_digits hh, two_digits mm]"
    using d by (simp add: two_digits_def digit_char_not_colon)
  have r: "hh div 10 \<le> 1 \<or> (hh div 10 = 2 \<and> hh mod 10 \<le> 3)"
    using assms by presburger
  have h: "strptime_hour (two_digits hh) = Some hh"
    using r d by (simp add: strptime_hour_def two_digits_def digit_of_digit_char)
  have m: "strptime_minute (two_digits mm) = Some mm"
    using assms d by (auto simp: strptime_minute_def two_digits_def digit_of_digit_char)
  show ?thesis using s h m by (simp add: parse_time_def strptime_HM_def)
qed



lemma calculate_end_time_wrapped:
  assumes "parse_time st = Inr (h, m)"
    and "calculate_end_time today st d = Inr et"
  shows "parse_time et = Inr (nat ((60 * int h + int m + d) mod 1440 div 60),
                              nat ((60 * int h + int m + d) mod 1440 mod 60))"
proof -
  let ?v = "(60 * int h + int m + d) mod 1440"
  have v: "0 \<le> ?v" "?v < 1440" by simp_all
  from assms obtain end_dt where
    a: "add_minutes \<lparr>dt_ordinal = today, dt_minute = 60 * int h + int m\<rparr> d = Inr end_dt"
    and e: "et = strftime_HM end_dt"
    by (auto simp: calculate_end_time_def split: sum.splits)
  from a have "dt_minute end_dt = (today * 1440 + (60 * int h + int m) + d) mod 1440"
    by (auto simp: add_minutes_def Let_def split: if_splits)
  also have "today * 1440 + (60 * int h + int m) + d = today * 1440 + (60 * int h + int m + d)"
    by simp
  also have "(today * 1440 + (60 * int h + int m + d)) mod 1440 = ?v"
    by (rule mod_mult_self3)
  finally have mv: "dt_minute end_dt = ?v" .
  have hh: "nat (?v div 60) < 24" using v by linarith
  have mm: "nat (?v mod 60) < 60" by simp
  have "et = two_digits (nat (?v div 60)) @ '':'' @ two_digits (nat (?v mod 60))"
    using e mv by (simp add: strftime_HM_def)
  then show ?thesis using parse_time_two_digits[OF hh mm] by simp
qed

text \<open>
  Claim C8. The end time is a wall clock time that wraps at midnight, and the
  operating hours check compares the wrapped value: a booking at 21:00 for 240 minutes
  has the computed end "01:00", which is not after "22:00", so it passes the check of a
  facility open from 06:00 to 22:00. (On the last day of the calendar the addition
  overflows instead.)
\<close>

theorem end_time_wraps_past_midnight:
  assumes "1 \<le> today" and "today < max_ordinal"
  shows "calculate_end_time today ''21:00'' 240 = Inr ''01:00''
       \<and> is_within_operating_hours ''21:00'' ''01:00'' ''06:00'' ''22:00'' = (True, '''')"
proof -
  have p: "parse_time ''21:00'' = Inr (21, 0)" by code_simp
  have a: "add_minutes \<lparr>dt_ordinal = today, dt_minute = 1260\<rparr> 240
            = Inr \<lparr>dt_ordinal = today + 1, dt_minute = 60\<rparr>"
    using assms by (simp add: add_minutes_def max_ordinal_def Let_def)
  have "strftime_HM \<lparr>dt_ordinal = 0, dt_minute = 60\<rparr> = ''01:00''"
    by code_simp
  then have f: "strftime_HM \<lparr>dt_ordinal = today + 1, dt_minute = 60\<rparr> = ''01:00''"
    by (simp add: strftime_HM_def)
  have w: "is_within_operating_hours ''21:00'' ''01:00'' ''06:00'' ''22:00'' = (True, '''')"
    by code_simp
  show ?thesis using p a f w by (simp add: calculate_end_time_def)
qed

text \<open>Witness for C8: today is 2024-12-25.\<close>

theorem end_time_wraps_past_midnight_witness:
  "calculate_end_time 739245 ''21:00'' 240 = Inr ''01:00''
   \<and> is_within_operating_hours ''21:00'' ''01:00'' ''06:00'' ''22:00'' = (True, '''')"
proof -
  have h1: "(1::int) \<le> 739245" by simp
  have h2: "739245 < max_ordinal" by (simp add: max_ordinal_def)
  show ?thesis using end_time_wraps_past_midnight [OF h1 h2] by simp
qed

section \<open>The availability resolver\<close>

lemma available_loop_append:
  "available_loop cal fid sdt edt (xs @ ys) acc w =
     (case available_loop cal fid sdt edt xs acc w of
        (Inl e, w') \<Rightarrow> (Inl e, w')
      | (Inr acc', w') \<Rightarrow> available_loop cal fid sdt edt ys acc' w')"
  by (induction xs arbitrary: acc w) (auto split: prod.splits sum.splits)

lemma get_available_courts_nonpos:
  "n \<le> 0 \<Longrightarrow> get_available_courts cal fid n sdt edt w = (Inr [], w)"
  by (simp add: get_available_courts_def)

lemma get_available_courts_step:
  assumes "0 \<le> n"
  shows "get_available_courts cal fid (n + 1) sdt edt w =
     (case get_available_courts cal fid n sdt edt w of
        (Inl e, w') \<Rightarrow> (Inl e, w')
      | (Inr acc, w') \<Rightarrow>
          (case check_court_availability cal (n + 1) sdt edt fid w' of
             (Inl e, w'') \<Rightarrow> (Inl e, w'')
           | (Inr free, w'') \<Rightarrow> (Inr (if free then acc @ [n + 1] else acc), w'')))"
proof -
  have "[1..n + 1] = [1..n] @ [n + 1]"
    using assms upto_rec2[of 1 "n + 1"] by simp
  then show ?thesis
    by (simp add: get_available_courts_def available_loop_append split: prod.splits sum.splits)
qed

lemma get_available_courts_filter:
  assumes "get_available_courts cal fid n sdt edt w = (Inr xs, w')"
  shows "xs = filter (reported_free cal fid sdt edt w) [1..n]"
proof (cases "0 \<le> n")
  case False
  then have "get_available_courts cal fid n sdt edt w = (Inr [], w)"
    by (simp add: get_available_courts_nonpos)
  with assms False show ?thesis by simp
next
  case True
  then have "\<forall>xs w'. get_available_courts cal fid n sdt edt w = (Inr xs, w') \<longrightarrow>
               xs = filter (reported_free cal fid sdt edt w) [1..n]"
  proof (induction n rule: int_ge_induct)
    case base
    show ?case by (simp add: get_available_courts_nonpos)
  next
    case (step i)
    show ?case
    proof (intro allI impI)
      fix xs w'
      assume run: "get_available_courts cal fid (i + 1) sdt edt w = (Inr xs, w')"
      obtain r0 w0 where g: "get_available_courts cal fid i sdt edt w = (r0, w0)"
        by (cases "get_available_courts cal fid i sdt edt w")
      obtain r1 w1 where c: "check_court_availability cal (i + 1) sdt edt fid w0 = (r1, w1)"
        by (cases "check_court_availability cal (i + 1) sdt edt fid w0")
      from run g c step.hyps obtain acc b where
        r0: "r0 = Inr acc" and r1: "r1 = Inr b" and xs: "xs = (if b then acc @ [i + 1] else acc)"
        by (cases r0; cases r1) (auto simp: get_available_courts_step)
      from step.IH g r0 have acc: "acc = filter (reported_free cal fid sdt edt w) [1..i]"
        by blast
      have last: "reported_free cal fid sdt edt w (i + 1) \<longleftrightarrow> b"
        using g c r1 by (simp add: reported_free_def)
      have "[1..i + 1] = [1..i] @ [i + 1]"
        using step.hyps upto_rec2[of 1 "i + 1"] by simp
      with acc last xs show "xs = filter (reported_free cal fid sdt edt w) [1..i + 1]"
        by simp
    qed
  qed
  with assms show ?thesis by blast
qed

lemma available_loop_uninitialized:
  "service cal = None \<Longrightarrow> available_loop cal fid sdt edt cs acc w = (Inr (acc @ cs), w)"
  by (induction cs arbitrary: acc) (simp_all add: check_court_availability_def)

lemma available_loop_all_HttpError:
  assumes "service cal = Some client"
    and "\<And>s. \<exists>m s'. events_list client (calendar_id cal) sdt edt s = (Inl (HttpError m), s')"
  shows "fst (available_loop cal fid sdt edt cs acc w) = Inr (acc @ cs)"
proof (induction cs arbitrary: acc w)
  case Nil
  show ?case by simp
next
  case (Cons c cs)
  from assms(2)[of "store w"] obtain m s' where
    "events_list client (calendar_id cal) sdt edt (store w) = (Inl (HttpError m), s')" by blast
  then have "check_court_availability cal c sdt edt fid w = (Inr True, w\<lparr>store := s'\<rparr>)"
    using assms(1) by (simp add: check_court_availability_def)
  then show ?case using Cons.IH[of "acc @ [c]" "w\<lparr>store := s'\<rparr>"] by simp
qed

lemma check_court_insert_calls:
  "check_court_availability cal c sdt edt fid w = (r, w') \<Longrightarrow> insert_calls w' = insert_calls w"
  by (auto simp: check_court_availability_def Let_def
           split: option.splits prod.splits sum.splits if_splits)

lemma available_loop_insert_calls:
  "available_loop cal fid sdt edt cs acc w = (r, w') \<Longrightarrow> insert_calls w' = insert_calls w"
proof (induction cs arbitrary: acc w)
  case Nil
  then show ?case by simp
next
  case (Cons c cs)
  obtain r1 w1 where c1: "check_court_availability cal c sdt edt fid w = (r1, w1)"
    by (cases "check_court_availability cal c sdt edt fid w")
  have k: "insert_calls w1 = insert_calls w"
    using c1 by (rule check_court_insert_calls)
  show ?case
  proof (cases r1)
    case (Inl e)
    with Cons.prems c1 k show ?thesis by simp
  next
    case (Inr b)
    with Cons.prems c1
    have "available_loop cal fid sdt edt cs (if b then acc @ [c] else acc) w1 = (r, w')"
      by simp
    from Cons.IH[OF this] k show ?thesis by simp
  qed
qed

lemma get_available_courts_insert_calls:
  "get_available_courts cal fid n sdt edt w = (r, w') \<Longrightarrow> insert_calls w' = insert_calls w"
  unfolding get_available_courts_def by (rule available_loop_insert_calls)

text \<open>
  The paths on which the resolver fails open, and what it returns when it returns.
  For every facility id, number of courts and time window: when the calendar service is
  uninitialized, and when every read raises \<open>HttpError\<close>, the resolver returns the full
  list \<open>1..total_courts\<close>; and whenever the resolver returns a list, it is exactly the
  court numbers of \<open>1..total_courts\<close> that the store reported free when asked (no
  blocking event, or an \<open>HttpError\<close>), in strictly ascending order.
\<close>

lemma get_available_courts_fail_open:
  "(service cal = None \<longrightarrow>
      get_available_courts cal fid n sdt edt w = (Inr [1..n], w))
   \<and> (\<forall>client. service cal = Some client
         \<and> (\<forall>s. \<exists>m s'. events_list client (calendar_id cal) sdt edt s = (Inl (HttpError m), s'))
       \<longrightarrow> fst (get_available_courts cal fid n sdt edt w) = Inr [1..n])
   \<and> (\<forall>xs w'. get_available_courts cal fid n sdt edt w = (Inr xs, w')
       \<longrightarrow> xs = filter (reported_free cal fid sdt edt w) [1..n] \<and> sorted_wrt (<) xs)"
proof (intro conjI allI impI)
  assume "service cal = None"
  then show "get_available_courts cal fid n sdt edt w = (Inr [1..n], w)"
    by (simp add: get_available_courts_def available_loop_uninitialized)
next
  fix client
  assume a: "service cal = Some client
         \<and> (\<forall>s. \<exists>m s'. events_list client (calendar_id cal) sdt edt s = (Inl (HttpError m), s'))"
  then have "fst (available_loop cal fid sdt edt [1..n] [] w) = Inr ([] @ [1..n])"
    by (intro available_loop_all_HttpError[of cal client]) auto
  then show "fst (get_available_courts cal fid n sdt edt w) = Inr [1..n]"
    by (simp add: get_available_courts_def)
next
  fix xs w'
  assume "get_available_courts cal fid n sdt edt w = (Inr xs, w')"
  then have f: "xs = filter (reported_free cal fid sdt edt w) [1..n]"
    by (rule get_available_courts_filter)
  show "xs = filter (reported_free cal fid sdt edt w) [1..n]"
    by (rule f)
  show "sorted_wrt (<) xs"
    unfolding f by (rule sorted_wrt_filter) simp
qed

text \<open>
  At the scenario facility: no calendar service; a store whose reads all fail with
  \<open>HttpError\<close>; and a store in which court 2 is booked, where courts 1, 3 and 4 come back.
\<close>

lemma get_available_courts_fail_open_example:
  "get_available_courts no_calendar ''pickle_x'' 4 slot_start slot_end fresh_world
     = (Inr [1, 2, 3, 4], fresh_world)
   \<and> fst (get_available_courts (stub_calendar (Inl (HttpError ''503 backend error'')) always_inserts)
            ''pickle_x'' 4 slot_start slot_end fresh_world) = Inr [1, 2, 3, 4]
   \<and> get_available_courts (stub_calendar (Inr (Some [booked 2])) always_inserts)
       ''pickle_x'' 4 slot_start slot_end fresh_world = (Inr [1, 3, 4], fresh_world)
   \<and> filter (reported_free (stub_calendar (Inr (Some [booked 2])) always_inserts)
               ''pickle_x'' slot_start slot_end fresh_world) [1..4] = [1, 3, 4]"
proof -
  let ?down = "stub_calendar (Inl (HttpError ''503 backend error'')) always_inserts"
  let ?busy = "stub_calendar (Inr (Some [booked 2])) always_inserts"
  have u: "[1..4] = [1, 2, 3, 4 :: int]"
    by code_simp
  have n: "service no_calendar = None"
    by (simp add: no_calendar_def)
  have d: "service ?down = Some (stub_client (Inl (HttpError ''503 backend error'')) always_inserts)
           \<and> (\<forall>s. \<exists>m s'. events_list (stub_client (Inl (HttpError ''503 backend error'')) always_inserts)
                     (calendar_id ?down) slot_start slot_end s = (Inl (HttpError m), s'))"
    by (simp add: stub_calendar_def stub_client_def)
  have b: "get_available_courts ?busy ''pickle_x'' 4 slot_start slot_end fresh_world
             = (Inr [1, 3, 4], fresh_world)"
    by code_simp
  note none = get_available_courts_fail_open
                [of no_calendar "''pickle_x''" 4 slot_start slot_end fresh_world]
  note down = get_available_courts_fail_open
                [of ?down "''pickle_x''" 4 slot_start slot_end fresh_world]
  note busy = get_available_courts_fail_open
                [of ?busy "''pickle_x''" 4 slot_start slot_end fresh_world]
  from none n u
  have c1: "get_available_courts no_calendar ''pickle_x'' 4 slot_start slot_end fresh_world
              = (Inr [1, 2, 3, 4], fresh_world)"
    by simp
  from down d u
  have c2: "fst (get_available_courts ?down ''pickle_x'' 4 slot_start slot_end fresh_world)
              = Inr [1, 2, 3, 4]"
    by metis
  from busy b
  have c3: "filter (reported_free ?busy ''pickle_x'' slot_start slot_end fresh_world) [1..4]
              = [1, 3, 4]"
    by metis
  from c1 c2 b c3 show ?thesis by blast
qed

text \<open>
  Claim C4: the resolver returns the courts of \<open>1..total_courts\<close> that the store reports
  free, in ascending order, and when the store is uninitialized or a read errors every
  court is treated as free, so that the full list comes back. The code fails open when
  the service is missing and when a read raises \<open>HttpError\<close>, but only \<open>HttpError\<close> is
  caught around the read: with the same store, the same facility and the same window, a
  read that fails with \<open>HttpError\<close> gives the full list 1, 2, 3, 4, while a read that
  fails with any other exception (here a timeout of the connection) ends the resolver
  with that exception, and \<open>check_availability\<close> answers with a failure instead of
  treating the courts as free.
\<close>

theorem get_available_courts_read_error_propagates:
  "fst (get_available_courts (stub_calendar (Inl (HttpError ''503 backend error'')) always_inserts)
          ''pickle_x'' 4 slot_start slot_end fresh_world) = Inr [1, 2, 3, 4]
   \<and> fst (events_list (stub_client (Inl (OtherException ''timed out'')) always_inserts)
          ''primary'' slot_start slot_end 0) = Inl (OtherException ''timed out'')
   \<and> fst (check_court_availability
            (stub_calendar (Inl (OtherException ''timed out'')) always_inserts)
            1 slot_start slot_end ''pickle_x'' fresh_world) = Inl (OtherException ''timed out'')
   \<and> fst (get_available_courts (stub_calendar (Inl (OtherException ''timed out'')) always_inserts)
            ''pickle_x'' 4 slot_start slot_end fresh_world) = Inl (OtherException ''timed out'')
   \<and> fst (check_availability (stub_calendar (Inl (OtherException ''timed out'')) always_inserts)
            scenario_facilities 739245 (availability_request ''2024-12-25'' ''14:00'' 60 2)
            fresh_world)
       = \<lparr>ca_success = False, ca_available = False, ca_free_courts = [],
          ca_reason_if_not_available = None, ca_data = None,
          ca_error = Some ''Error checking availability: timed out''\<rparr>"
  by code_simp

section \<open>The booking operations\<close>

lemma first_unavailable_Some:
  "first_unavailable cs free = Some n \<Longrightarrow>
     \<exists>pre post. cs = pre @ n # post \<and> set pre \<subseteq> set free \<and> n \<notin> set free"
proof (induction cs)
  case Nil
  then show ?case by simp
next
  case (Cons c cs)
  show ?case
  proof (cases "c \<in> set free")
    case True
    with Cons.prems have "first_unavailable cs free = Some n" by simp
    from Cons.IH[OF this] obtain pre post where
      "cs = pre @ n # post" "set pre \<subseteq> set free" "n \<notin> set free" by blast
    with True have "c # cs = (c # pre) @ n # post \<and> set (c # pre) \<subseteq> set free \<and> n \<notin> set free"
      by simp
    then show ?thesis by blast
  next
    case False
    with Cons.prems have "n = c" by simp
    with False have "c # cs = [] @ n # cs \<and> set [] \<subseteq> set free \<and> n \<notin> set free" by simp
    then show ?thesis by blast
  qed
qed

lemma first_unavailable_None:
  "first_unavailable cs free = None \<longleftrightarrow> set cs \<subseteq> set free"
  by (induction cs) auto

text \<open>
  Claim C2. Whenever \<open>check_availability\<close> answers \<open>available = true\<close>, the free courts
  of the response are the list that the resolver returned in this call, and that list
  has at least as many courts as the request asked for.
\<close>

theorem check_availability_available_enough_free:
  assumes "check_availability cal facilities today request w = (resp, w')"
    and "ca_available resp"
  shows "car_number_of_courts request \<le> int (length (ca_free_courts resp))
       \<and> (\<exists>fac start_dt end_dt. facilities (car_facility_id request) = Some fac
            \<and> get_available_courts cal (facility_id fac) (number_of_courts fac) start_dt end_dt w
                = (Inr (ca_free_courts resp), w'))"
  using assms unfolding check_availability_def
  by (auto simp: ca_exception_def ca_rejected_def
           split: option.splits sum.splits prod.splits if_splits) blast

text \<open>
  Witness for C2: the scenario of the specification. Two courts are requested at 14:00
  for 60 minutes and court 2 is booked; the answer is available with courts 1, 3, 4.
\<close>

theorem check_availability_available_enough_free_witness:
  "check_availability (stub_calendar (Inr (Some [booked 2])) always_inserts) scenario_facilities
       739245 (availability_request ''2024-12-25'' ''14:00'' 60 2) fresh_world
     = (\<lparr>ca_success = True, ca_available = True, ca_free_courts = [1, 3, 4],
         ca_reason_if_not_available = None,
         ca_data = Some (AvailableData [1, 3, 4] 4 ''2024-12-25'' ''14:00'' 60),
         ca_error = None\<rparr>, fresh_world)
   \<and> car_number_of_courts (availability_request ''2024-12-25'' ''14:00'' 60 2)
       \<le> int (length [1, 3, 4 :: int])"
proof -
  let ?resp = "\<lparr>ca_success = True, ca_available = True, ca_free_courts = [1, 3, 4],
         ca_reason_if_not_available = None,
         ca_data = Some (AvailableData [1, 3, 4] 4 ''2024-12-25'' ''14:00'' 60),
         ca_error = None\<rparr>"
  have run: "check_availability (stub_calendar (Inr (Some [booked 2])) always_inserts)
       scenario_facilities 739245 (availability_request ''2024-12-25'' ''14:00'' 60 2) fresh_world
     = (?resp, fresh_world)"
    by code_simp
  have av: "ca_available ?resp"
    by simp
  from check_availability_available_enough_free [OF run av] run show ?thesis
    by simp
qed

text \<open>
  Claim C9, as stated, fails: passing the facility lookup, the slot validation and the
  operating hours check is not enough for a success, because the date is only parsed
  afterwards. A request for zero courts with the date "garbage" passes the three checks
  and is answered with a failure.
\<close>

theorem check_availability_nonpositive_counterexample:
  "scenario_facilities ''pickle_x'' = Some scenario_facility
   \<and> validate_booking_slot ''14:00'' 60 (booking_rules scenario_facility) = Inr (True, '''')
   \<and> calculate_end_time 739245 ''14:00'' 60 = Inr ''15:00''
   \<and> is_within_operating_hours ''14:00'' ''15:00'' (open_time scenario_facility)
        (close_time scenario_facility) = (True, '''')
   \<and> check_availability no_calendar scenario_facilities 739245
        (availability_request ''garbage'' ''14:00'' 60 0) fresh_world
       = (\<lparr>ca_success = False, ca_available = False, ca_free_courts = [],
           ca_reason_if_not_available = None, ca_data = None,
           ca_error = Some ''Error checking availability: Invalid date format: garbage. Expected YYYY-MM-DD format.''\<rparr>,
          fresh_world)"
proof -
  have lookup: "scenario_facilities ''pickle_x'' = Some scenario_facility"
    by (simp add: scenario_facilities_def)
  have rest: "validate_booking_slot ''14:00'' 60 (booking_rules scenario_facility) = Inr (True, '''')
   \<and> calculate_end_time 739245 ''14:00'' 60 = Inr ''15:00''
   \<and> is_within_operating_hours ''14:00'' ''15:00'' (open_time scenario_facility)
        (close_time scenario_facility) = (True, '''')
   \<and> check_availability no_calendar scenario_facilities 739245
        (availability_request ''garbage'' ''14:00'' 60 0) fresh_world
       = (\<lparr>ca_success = False, ca_available = False, ca_free_courts = [],
           ca_reason_if_not_available = None, ca_data = None,
           ca_error = Some ''Error checking availability: Invalid date format: garbage. Expected YYYY-MM-DD format.''\<rparr>,
          fresh_world)"
    by code_simp
  from lookup rest show ?thesis by blast
qed

text \<open>
  Claim C9, amended. \<open>check_availability\<close> never validates the requested number of
  courts: for every request with \<open>number_of_courts <= 0\<close> that passes the facility
  lookup, the slot validation and the operating hours check, whose date and time give
  a window, and for which the resolver returns a list, the response is
  \<open>success = true\<close> and \<open>available = true\<close> with that list, however many courts it has.
\<close>

theorem check_availability_nonpositive_request:
  assumes "facilities (car_facility_id request) = Some fac"
    and "validate_booking_slot (car_start_time request) (car_duration_minutes request)
           (booking_rules fac) = Inr (True, slot_msg)"
    and "calculate_end_time today (car_start_time request) (car_duration_minutes request)
           = Inr end_time"
    and "is_within_operating_hours (car_start_time request) end_time (open_time fac)
           (close_time fac) = (True, hours_msg)"
    and "combine_datetime (car_date request) (car_start_time request) = Inr start_dt"
    and "get_end_datetime start_dt (car_duration_minutes request) = Inr end_dt"
    and "get_available_courts cal (facility_id fac) (number_of_courts fac) start_dt end_dt w
           = (Inr free, w')"
    and "car_number_of_courts request \<le> 0"
  shows "ca_success (fst (check_availability cal facilities today request w))
       \<and> ca_available (fst (check_availability cal facilities today request w))
       \<and> ca_free_courts (fst (check_availability cal facilities today request w)) = free
       \<and> snd (check_availability cal facilities today request w) = w'"
  unfolding check_availability_def using assms by simp

text \<open>
  Witness for the amended C9: all four courts of the scenario facility are booked and
  zero courts are requested; the answer is available with no free court.
\<close>

theorem check_availability_nonpositive_request_witness:
  "get_available_courts
       (stub_calendar (Inr (Some [booked 1, booked 2, booked 3, booked 4])) always_inserts)
       ''pickle_x'' 4 slot_start slot_end fresh_world = (Inr [], fresh_world)
   \<and> car_number_of_courts (availability_request ''2024-12-25'' ''14:00'' 60 0) \<le> 0
   \<and> ca_success (fst (check_availability
           (stub_calendar (Inr (Some [booked 1, booked 2, booked 3, booked 4])) always_inserts)
           scenario_facilities 739245 (availability_request ''2024-12-25'' ''14:00'' 60 0)
           fresh_world))
   \<and> ca_available (fst (check_availability
           (stub_calendar (Inr (Some [booked 1, booked 2, booked 3, booked 4])) always_inserts)
           scenario_facilities 739245 (availability_request ''2024-12-25'' ''14:00'' 60 0)
           fresh_world))
   \<and> ca_free_courts (fst (check_availability
           (stub_calendar (Inr (Some [booked 1, booked 2, booked 3, booked 4])) always_inserts)
           scenario_facilities 739245 (availability_request ''2024-12-25'' ''14:00'' 60 0)
           fresh_world)) = []"
proof -
  let ?cal = "stub_calendar (Inr (Some [booked 1, booked 2, booked 3, booked 4])) always_inserts"
  let ?req = "availability_request ''2024-12-25'' ''14:00'' 60 0"
  have h1: "scenario_facilities (car_facility_id ?req) = Some scenario_facility"
    by (simp add: scenario_facilities_def availability_request_def)
  have h2: "validate_booking_slot (car_start_time ?req) (car_duration_minutes ?req)
              (booking_rules scenario_facility) = Inr (True, '''')"
    by code_simp
  have h3: "calculate_end_time 739245 (car_start_time ?req) (car_duration_minutes ?req)
              = Inr ''15:00''"
    by code_simp
  have h4: "is_within_operating_hours (car_start_time ?req) ''15:00''
              (open_time scenario_facility) (close_time scenario_facility) = (True, '''')"
    by code_simp
  have h5: "combine_datetime (car_date ?req) (car_start_time ?req) = Inr slot_start"
    by code_simp
  have h6: "get_end_datetime slot_start (car_duration_minutes ?req) = Inr slot_end"
    by code_simp
  have h7: "get_available_courts ?cal (facility_id scenario_facility)
              (number_of_courts scenario_facility) slot_start slot_end fresh_world
              = (Inr [], fresh_world)"
    by code_simp
  have h7': "get_available_courts ?cal ''pickle_x'' 4 slot_start slot_end fresh_world
              = (Inr [], fresh_world)"
    by code_simp
  have h8: "car_number_of_courts ?req \<le> 0"
    by code_simp
  from check_availability_nonpositive_request
         [where facilities = scenario_facilities and request = "?req" and fac = scenario_facility
            and cal = "?cal" and w = fresh_world and today = 739245,
          OF h1 h2 h3 h4 h5 h6 h7 h8] h7' h8
  show ?thesis by simp
qed

text \<open>
  Whatever the request, an insert call is only issued after the resolver has returned
  a free set that holds every requested court.
\<close>

lemma create_booking_inserts_need_all_free:
  assumes "create_booking cal facilities today request w = (resp, w')"
    and "insert_calls w' \<noteq> insert_calls w"
  shows "\<exists>fac start_dt end_dt free w1.
           facilities (cbr_facility_id request) = Some fac
           \<and> get_available_courts cal (facility_id fac) (number_of_courts fac) start_dt end_dt w
               = (Inr free, w1)
           \<and> set (cbr_court_numbers request) \<subseteq> set free"
  using assms unfolding create_booking_def
  by (auto simp: first_unavailable_None[symmetric]
           split: option.splits sum.splits prod.splits if_splits
           dest: get_available_courts_insert_calls)

text \<open>
  Claim C3. When \<open>create_booking\<close> has resolved the free set and some requested court
  is not in it, the operation returns the failure "Court N is not available at the
  requested time" for the first such court \<open>N\<close> of the request, and the insert calls
  of the world are those from before the operation: no create-event call is made.
\<close>

theorem create_booking_unavailable_court:
  assumes "service cal = Some client"
    and "facilities (cbr_facility_id request) = Some fac"
    and "validate_booking_slot (cbr_start_time request) (cbr_duration_minutes request)
           (booking_rules fac) = Inr (True, slot_msg)"
    and "validate_court_numbers (cbr_court_numbers request) (number_of_courts fac)
           = (True, courts_msg)"
    and "calculate_end_time today (cbr_start_time request) (cbr_duration_minutes request)
           = Inr end_time"
    and "is_within_operating_hours (cbr_start_time request) end_time (open_time fac)
           (close_time fac) = (True, hours_msg)"
    and "combine_datetime (cbr_date request) (cbr_start_time request) = Inr start_dt"
    and "get_end_datetime start_dt (cbr_duration_minutes request) = Inr end_dt"
    and "get_available_courts cal (facility_id fac) (number_of_courts fac) start_dt end_dt w
           = (Inr free, w1)"
    and "\<not> set (cbr_court_numbers request) \<subseteq> set free"
  shows "\<exists>pre n post.
           cbr_court_numbers request = pre @ n # post \<and> set pre \<subseteq> set free \<and> n \<notin> set free
           \<and> create_booking cal facilities today request w
               = (\<lparr>cb_success = False, cb_booking_id = None, cb_message = None, cb_data = None,
                   cb_error = Some (''Court '' @ str_int n
                                    @ '' is not available at the requested time'')\<rparr>, w1)
           \<and> insert_calls w1 = insert_calls w"
proof -
  from assms(10) obtain n where n: "first_unavailable (cbr_court_numbers request) free = Some n"
    using first_unavailable_None[of "cbr_court_numbers request" free]
    by (cases "first_unavailable (cbr_court_numbers request) free") auto
  from first_unavailable_Some[OF n] obtain pre post where
    parts: "cbr_court_numbers request = pre @ n # post" "set pre \<subseteq> set free" "n \<notin> set free"
    by blast
  have run: "create_booking cal facilities today request w
               = (\<lparr>cb_success = False, cb_booking_id = None, cb_message = None, cb_data = None,
                   cb_error = Some (''Court '' @ str_int n
                                    @ '' is not available at the requested time'')\<rparr>, w1)"
    unfolding create_booking_def using assms(1-9) n by (simp add: cb_failure_def)
  have "insert_calls w1 = insert_calls w"
    using assms(9) by (rule get_available_courts_insert_calls)
  with parts run show ?thesis by blast
qed

text \<open>
  Witness for C3: the scenario of the specification. Courts 1 and 2 are requested while
  courts 2 and 4 are booked, so the free set is 1, 3; the answer names court 2 and the
  world is untouched.
\<close>

theorem create_booking_unavailable_court_witness:
  "get_available_courts (stub_calendar (Inr (Some [booked 2, booked 4])) always_inserts)
       ''pickle_x'' 4 slot_start slot_end fresh_world = (Inr [1, 3], fresh_world)
   \<and> create_booking (stub_calendar (Inr (Some [booked 2, booked 4])) always_inserts)
        scenario_facilities 739245 (booking_request [1, 2]) fresh_world
       = (\<lparr>cb_success = False, cb_booking_id = None, cb_message = None, cb_data = None,
           cb_error = Some ''Court 2 is not available at the requested time''\<rparr>, fresh_world)
   \<and> insert_calls fresh_world = []"
proof -
  let ?cal = "stub_calendar (Inr (Some [booked 2, booked 4])) always_inserts"
  let ?req = "booking_request [1, 2]"
  have h1: "service ?cal = Some (stub_client (Inr (Some [booked 2, booked 4])) always_inserts)"
    by (simp add: stub_calendar_def)
  have h2: "scenario_facilities (cbr_facility_id ?req) = Some scenario_facility"
    by (simp add: scenario_facilities_def booking_request_def)
  have h3: "validate_booking_slot (cbr_start_time ?req) (cbr_duration_minutes ?req)
              (booking_rules scenario_facility) = Inr (True, '''')"
    by code_simp
  have h4: "validate_court_numbers (cbr_court_numbers ?req) (number_of_courts scenario_facility)
              = (True, '''')"
    by code_simp
  have h5: "calculate_end_time 739245 (cbr_start_time ?req) (cbr_duration_minutes ?req)
              = Inr ''15:00''"
    by code_simp
  have h6: "is_within_operating_hours (cbr_start_time ?req) ''15:00''
              (open_time scenario_facility) (close_time scenario_facility) = (True, '''')"
    by code_simp
  have h7: "combine_datetime (cbr_date ?req) (cbr_start_time ?req) = Inr slot_start"
    by code_simp
  have h8: "get_end_datetime slot_start (cbr_duration_minutes ?req) = Inr slot_end"
    by code_simp
  have h9: "get_available_courts ?cal (facility_id scenario_facility)
              (number_of_courts scenario_facility) slot_start slot_end fresh_world
              = (Inr [1, 3], fresh_world)"
    by code_simp
  have h9': "get_available_courts ?cal ''pickle_x'' 4 slot_start slot_end fresh_world
              = (Inr [1, 3], fresh_world)"
    by code_simp
  have h10: "\<not> set (cbr_court_numbers ?req) \<subseteq> set [1, 3]"
    by (simp add: booking_request_def)
  have courts: "cbr_court_numbers ?req = [1, 2]"
    by (simp add: booking_request_def)
  have two: "str_int 2 = ''2''"
    by code_simp
  from create_booking_unavailable_court
         [where facilities = scenario_facilities and request = "?req" and fac = scenario_facility
            and cal = "?cal" and w = fresh_world and today = 739245,
          OF h1 h2 h3 h4 h5 h6 h7 h8 h9 h10]
  obtain pre n post where
    parts: "cbr_court_numbers ?req = pre @ n # post" "set pre \<subseteq> set [1, 3]" "n \<notin> set [1, 3]"
    and run: "create_booking ?cal scenario_facilities 739245 ?req fresh_world
               = (\<lparr>cb_success = False, cb_booking_id = None, cb_message = None, cb_data = None,
                   cb_error = Some (''Court '' @ str_int n
                                    @ '' is not available at the requested time'')\<rparr>, fresh_world)"
    by blast
  from parts courts have "n = 2"
    by (cases pre; cases "tl pre") auto
  with run two h9' show ?thesis
    by (simp add: fresh_world_def)
qed

text \<open>
  Claim C1: a booking is a success only if every requested court's event was created,
  and a partial failure is an overall failure. The write loop drops the courts whose
  create-event call gave no id, and the result is a success as soon as one id is left:
  with courts 1 and 2 requested, the first insert answered with the id "evt1" and the
  second failing with \<open>HttpError\<close>, the response is a success whose message and data
  name both courts with the single id "evt1".
\<close>

theorem create_booking_partial_write_is_success:
  "fst (create_booking_event (stub_calendar (Inr (Some [])) second_insert_fails)
          ''Pickle X'' ''pickle_x'' 2 ''Asha'' ''+919876543210'' slot_start slot_end
          ''2024-12-25'' ''14:00'' 60 \<lparr>store = 1, insert_calls = []\<rparr>) = Inr None
   \<and> fst (create_booking (stub_calendar (Inr (Some [])) second_insert_fails)
            scenario_facilities 739245 (booking_request [1, 2]) fresh_world)
       = \<lparr>cb_success = True, cb_booking_id = Some ''evt1'',
          cb_message = Some ''Booking confirmed for Asha! Courts 1, 2 on 2024-12-25 at 14:00 for 60 minutes.'',
          cb_data = Some \<lparr>bd_facility = ''Pickle X'', bd_court_numbers = [1, 2],
                          bd_date = ''2024-12-25'', bd_start_time = ''14:00'',
                          bd_end_time = ''15:00'', bd_duration_minutes = 60,
                          bd_customer_name = ''Asha'', bd_customer_phone = ''+919876543210'',
                          bd_booking_ids = [''evt1'']\<rparr>,
          cb_error = None\<rparr>
   \<and> map eb_summary (insert_calls (snd (create_booking
            (stub_calendar (Inr (Some [])) second_insert_fails)
            scenario_facilities 739245 (booking_request [1, 2]) fresh_world)))
       = [''Court 1 Booking - Asha'', ''Court 2 Booking - Asha'']"
  by code_simp

end
